theory Spec2Isabelle
  imports Main
begin

section \<open>Python strings\<close>

text \<open>
  A Python \<open>str\<close> is modelled as a \<open>string\<close>. The model covers ASCII text, which is
  what tags, URLs and endpoints of the client are: \<open>upper\<close> maps the letters \<open>a\<close> to
  \<open>z\<close> to \<open>A\<close> to \<open>Z\<close> and leaves every other character alone, as \<open>str.upper\<close> does
  on ASCII text. On other text \<open>str.upper\<close> follows Unicode (it can even change the
  length) and the model does not: nothing below is stated about the upper case of a
  tag with a character outside ASCII.
\<close>

definition startswith :: "string \<Rightarrow> string \<Rightarrow> bool" where
  \<comment> \<open>\<open>s.startswith(p)\<close>\<close>
  "startswith s p = (take (length p) s = p)"

definition lstrip :: "string \<Rightarrow> char \<Rightarrow> string" where
  \<comment> \<open>\<open>s.lstrip(c)\<close> for a one-character \<open>c\<close>: every leading \<open>c\<close> is dropped\<close>
  "lstrip s c = dropWhile (\<lambda>x. x = c) s"

definition rstrip :: "string \<Rightarrow> char \<Rightarrow> string" where
  \<comment> \<open>\<open>s.rstrip(c)\<close> for a one-character \<open>c\<close>: every trailing \<open>c\<close> is dropped\<close>
  "rstrip s c = rev (dropWhile (\<lambda>x. x = c) (rev s))"

definition replace :: "string \<Rightarrow> char \<Rightarrow> string \<Rightarrow> string" where
  \<comment> \<open>\<open>s.replace(old, new)\<close> for a one-character \<open>old\<close>\<close>
  "replace s old new = concat (map (\<lambda>x. if x = old then new else [x]) s)"

definition upper_char :: "char \<Rightarrow> char" where
  "upper_char c =
     (case map_of (zip ''abcdefghijklmnopqrstuvwxyz'' ''ABCDEFGHIJKLMNOPQRSTUVWXYZ'') c of
        None \<Rightarrow> c
      | Some u \<Rightarrow> u)"

definition upper :: "string \<Rightarrow> string" where
  \<comment> \<open>\<open>s.upper()\<close>\<close>
  "upper s = map upper_char s"

definition digit :: "nat \<Rightarrow> char" where
  "digit d = ''0123456789'' ! d"

fun str_nat :: "nat \<Rightarrow> string" where
  "str_nat n = (if n < 10 then [digit n] else str_nat (n div 10) @ [digit (n mod 10)])"

declare str_nat.simps [simp del]

definition str_int :: "int \<Rightarrow> string" where
  \<comment> \<open>\<open>str(i)\<close>, also what an f-string writes for an integer\<close>
  "str_int i = (if i < 0 then CHR ''-'' # str_nat (nat (- i)) else str_nat (nat i))"

section \<open>Python values and exceptions\<close>

text \<open>
  The values a JSON body parses to, and the values the client passes as query
  parameters. A float is \<open>nan\<close>, one of the two infinities, or a finite binary
  fraction \<open>m * 2 ^ e\<close>; no operation of the client computes with one.
\<close>

datatype pyfloat =
    NaN
  | PosInfinity
  | NegInfinity
  | Finite int int

datatype pyval =
    PNone
  | PBool bool
  | PInt int
  | PFloat pyfloat
  | PStr string
  | PList "pyval list"
  | PDict "(string \<times> pyval) list"

definition dict_get :: "(string \<times> pyval) list \<Rightarrow> string \<Rightarrow> pyval \<Rightarrow> pyval" where
  \<comment> \<open>\<open>d.get(key, default)\<close>\<close>
  "dict_get d key dflt = (case map_of d key of None \<Rightarrow> dflt | Some v \<Rightarrow> v)"

fun type_name :: "pyval \<Rightarrow> string" where
  "type_name PNone = ''NoneType''"
| "type_name (PBool _) = ''bool''"
| "type_name (PInt _) = ''int''"
| "type_name (PFloat _) = ''float''"
| "type_name (PStr _) = ''str''"
| "type_name (PList _) = ''list''"
| "type_name (PDict _) = ''dict''"

text \<open>
  The exception classes that reach the client. \<open>Timeout\<close>, \<open>ConnectTimeout\<close>,
  \<open>ReadTimeout\<close>, \<open>HTTPError\<close>, \<open>ConnectionError\<close>, \<open>ChunkedEncodingError\<close> and
  \<open>RequestsJSONDecodeError\<close> are classes of \<open>requests.exceptions\<close> and derive from
  \<open>RequestException\<close>; \<open>ConnectTimeout\<close> derives from both \<open>ConnectionError\<close> and
  \<open>Timeout\<close>, \<open>ReadTimeout\<close> from \<open>Timeout\<close>. \<open>JSONDecodeError\<close> is the class of the
  \<open>json\<close> module and derives from \<open>ValueError\<close>; \<open>RequestsJSONDecodeError\<close> is the
  class of the same name in \<open>requests.exceptions\<close>.
\<close>

datatype exc_class =
    RequestException
  | Timeout
  | ConnectTimeout
  | ReadTimeout
  | HTTPError
  | ConnectionError
  | ChunkedEncodingError
  | RequestsJSONDecodeError
  | ValueError
  | JSONDecodeError
  | AttributeError
  | UnboundLocalError

datatype exc = Exc exc_class string

fun class_of :: "exc \<Rightarrow> exc_class" where
  "class_of (Exc c _) = c"

fun str_exc :: "exc \<Rightarrow> string" where
  \<comment> \<open>\<open>str(e)\<close>\<close>
  "str_exc (Exc _ m) = m"

definition issubclass :: "exc_class \<Rightarrow> exc_class \<Rightarrow> bool" where
  "issubclass c d =
     (c = d \<or>
      (c, d) \<in> set [(Timeout, RequestException),
                     (ConnectTimeout, Timeout),
                     (ConnectTimeout, ConnectionError),
                     (ConnectTimeout, RequestException),
                     (ReadTimeout, Timeout),
                     (ReadTimeout, RequestException),
                     (HTTPError, RequestException),
                     (ConnectionError, RequestException),
                     (ChunkedEncodingError, RequestException),
                     (RequestsJSONDecodeError, RequestException),
                     (RequestsJSONDecodeError, ValueError),
                     (RequestsJSONDecodeError, JSONDecodeError),
                     (JSONDecodeError, ValueError)])"

definition isinstance :: "exc \<Rightarrow> exc_class \<Rightarrow> bool" where
  "isinstance e c = issubclass (class_of e) c"

section \<open>The HTTP library\<close>

text \<open>
  What the client uses of \<open>requests\<close>: a session holding default headers, a GET that
  either raises or returns a response, \<open>raise_for_status\<close> and \<open>json\<close>. The upstream
  API and the network are a function from the request sent to what the GET yields;
  \<open>response.json()\<close> is a field of the response: the parsed body, or the exception
  the call raises. \<open>http_response\<close> below builds the response of a status and a body
  as the library does, its \<open>json\<close> being what the decoder makes of the body.
\<close>

record session =
  headers :: "string \<rightharpoonup> string"

record request =
  req_url :: string
  req_params :: "(string \<times> pyval) list option"
  req_headers :: "string \<rightharpoonup> string"
  req_timeout :: int

record response =
  status_code :: int
  resp_text :: string
  json :: "exc + pyval"

type_synonym network = "request \<Rightarrow> exc + response"

definition session_get ::
  "network \<Rightarrow> session \<Rightarrow> string \<Rightarrow> (string \<times> pyval) list option \<Rightarrow> int \<Rightarrow>
   request list \<Rightarrow> (exc + response) \<times> request list" where
  \<comment> \<open>\<open>session.get(url, params=params, timeout=timeout)\<close>: the request goes on the wire
     with the session's headers\<close>
  "session_get net s url params tmo sent =
     (let rq = \<lparr>req_url = url, req_params = params, req_headers = headers s,
                req_timeout = tmo\<rparr>
      in (net rq, sent @ [rq]))"

definition raise_for_status :: "response \<Rightarrow> exc + unit" where
  \<comment> \<open>\<open>response.raise_for_status()\<close>: an \<open>HTTPError\<close> for a status from 400 to 599,
     nothing otherwise\<close>
  "raise_for_status r =
     (if 400 \<le> status_code r \<and> status_code r < 500
      then Inl (Exc HTTPError (str_int (status_code r) @ '' Client Error''))
      else if 500 \<le> status_code r \<and> status_code r < 600
      then Inl (Exc HTTPError (str_int (status_code r) @ '' Server Error''))
      else Inr ())"





definition json_ws :: "string \<Rightarrow> string" where
  \<comment> \<open>leading white space dropped: space, tab, line feed, carriage return\<close>
  "json_ws s = dropWhile (\<lambda>c. c \<in> set [CHR '' '', CHR 0x09, CHR 0x0A, CHR 0x0D]) s"





section \<open>ClashRoyaleService\<close>

record ClashRoyaleService =
  api_key :: string
  base_url :: string
  timeout :: int
  session :: session

text \<open>
  The state the methods run in: the client object and the requests issued so far,
  oldest first.
\<close>

record world =
  self :: ClashRoyaleService
  sent :: "request list"

definition init :: "session \<Rightarrow> string \<Rightarrow> string \<Rightarrow> int option \<Rightarrow> ClashRoyaleService" where
  \<comment> \<open>\<open>__init__(api_key, base_url, timeout=30)\<close>; \<open>fresh\<close> is what
     \<open>requests.Session()\<close> returns\<close>
  "init fresh key url tmo =
     \<lparr>api_key = key,
      base_url = rstrip url CHR ''/'',
      timeout = (case tmo of None \<Rightarrow> 30 | Some t \<Rightarrow> t),
      session = fresh\<lparr>headers := (headers fresh)
        (''Authorization'' \<mapsto> ''Bearer '' @ key, ''Accept'' \<mapsto> ''application/json'')\<rparr>\<rparr>"

definition on_http_error :: "response \<Rightarrow> exc" where
  \<comment> \<open>the body of \<open>except requests.exceptions.HTTPError\<close>\<close>
  "on_http_error r =
     (if status_code r = 404
      then Exc ValueError ''Resource not found. Check the player tag or clan tag.''
      else if status_code r = 403
      then Exc ValueError ''Access forbidden. Check your API key.''
      else if status_code r = 429
      then Exc ValueError ''Rate limit exceeded. Please try again later.''
      else Exc ValueError (''API request failed with status '' @ str_int (status_code r)
                           @ '': '' @ resp_text r))"

definition except_clauses :: "exc \<Rightarrow> response option \<Rightarrow> exc" where
  \<comment> \<open>the three \<open>except\<close> clauses of \<open>_make_request\<close>, in their order; \<open>r\<close> is the local
     \<open>response\<close>, unbound (\<open>None\<close>) when the GET itself raised. An exception no clause
     matches propagates as it is.\<close>
  "except_clauses e r =
     (if isinstance e Timeout
      then Exc RequestException ''Request to Clash Royale API timed out''
      else if isinstance e HTTPError
      then (case r of
              None \<Rightarrow> Exc UnboundLocalError
                ''cannot access local variable 'response' where it is not associated with a value''
            | Some resp \<Rightarrow> on_http_error resp)
      else if isinstance e RequestException
      then Exc RequestException (''Failed to connect to Clash Royale API: '' @ str_exc e)
      else e)"

definition make_request ::
  "network \<Rightarrow> string \<Rightarrow> (string \<times> pyval) list option \<Rightarrow> world \<Rightarrow> (exc + pyval) \<times> world" where
  \<comment> \<open>\<open>_make_request(endpoint, params=None)\<close>\<close>
  "make_request net endpoint params w =
     (let url = base_url (self w) @ ''/'' @ lstrip endpoint CHR ''/'';
          (got, sent') = session_get net (session (self w)) url params (timeout (self w)) (sent w);
          w' = w\<lparr>sent := sent'\<rparr>
      in case got of
           Inl e \<Rightarrow> (Inl (except_clauses e None), w')
         | Inr resp \<Rightarrow>
             (case raise_for_status resp of
                Inl e \<Rightarrow> (Inl (except_clauses e (Some resp)), w')
              | Inr _ \<Rightarrow>
                  (case json resp of
                     Inl e \<Rightarrow> (Inl (except_clauses e (Some resp)), w')
                   | Inr v \<Rightarrow> (Inr v, w'))))"

definition get_player_info :: "network \<Rightarrow> string \<Rightarrow> world \<Rightarrow> (exc + pyval) \<times> world" where
  "get_player_info net player_tag w =
     (let player_tag' = (if startswith player_tag ''#''
                         then ''%23'' @ drop 1 player_tag
                         else ''%23'' @ player_tag);
          endpoint = ''players/'' @ player_tag'
      in make_request net endpoint None w)"

definition get_player_battle_log :: "network \<Rightarrow> string \<Rightarrow> world \<Rightarrow> (exc + pyval) \<times> world" where
  "get_player_battle_log net player_tag w =
     (let player_tag' = (if startswith player_tag ''#''
                         then ''%23'' @ drop 1 player_tag
                         else ''%23'' @ player_tag);
          endpoint = ''players/'' @ player_tag' @ ''/battlelog''
      in make_request net endpoint None w)"

definition get_clan_info :: "network \<Rightarrow> string \<Rightarrow> world \<Rightarrow> (exc + pyval) \<times> world" where
  "get_clan_info net clan_tag w =
     (let clean_tag = upper (replace clan_tag CHR ''#'' '''');
          encoded_tag = replace clean_tag CHR ''#'' ''%23'';
          endpoint = ''clans/'' @ encoded_tag
      in make_request net endpoint None w)"

definition get_clan_members :: "network \<Rightarrow> string \<Rightarrow> world \<Rightarrow> (exc + pyval) \<times> world" where
  \<comment> \<open>\<open>clan_info.get\<close> exists on a \<open>dict\<close> only: any other payload raises
     \<open>AttributeError\<close>\<close>
  "get_clan_members net clan_tag w =
     (case get_clan_info net clan_tag w of
        (Inl e, w') \<Rightarrow> (Inl e, w')
      | (Inr clan_info, w') \<Rightarrow>
          (case clan_info of
             PDict d \<Rightarrow>
               (Inr (PDict [(''members'', dict_get d ''memberList'' (PList [])),
                            (''memberCount'', dict_get d ''memberCount'' (PInt 0))]), w')
           | _ \<Rightarrow>
               (Inl (Exc AttributeError
                      ([CHR 0x27] @ type_name clan_info @ [CHR 0x27]
                       @ '' object has no attribute '' @ [CHR 0x27] @ ''get'' @ [CHR 0x27])), w')))"

definition get_clan_war_log :: "network \<Rightarrow> string \<Rightarrow> world \<Rightarrow> (exc + pyval) \<times> world" where
  "get_clan_war_log net clan_tag w =
     (let clean_tag = upper (replace clan_tag CHR ''#'' '''');
          encoded_tag = replace clean_tag CHR ''#'' ''%23'';
          endpoint = ''clans/'' @ encoded_tag @ ''/warlog''
      in make_request net endpoint None w)"

definition get_clan_current_war :: "network \<Rightarrow> string \<Rightarrow> world \<Rightarrow> (exc + pyval) \<times> world" where
  "get_clan_current_war net clan_tag w =
     (let clean_tag = upper (replace clan_tag CHR ''#'' '''');
          encoded_tag = replace clean_tag CHR ''#'' ''%23'';
          endpoint = ''clans/'' @ encoded_tag @ ''/currentwar''
      in make_request net endpoint None w)"

definition get_cards :: "network \<Rightarrow> world \<Rightarrow> (exc + pyval) \<times> world" where
  "get_cards net w = (let endpoint = ''cards'' in make_request net endpoint None w)"

definition get_pol_leaderboard :: "network \<Rightarrow> string \<Rightarrow> world \<Rightarrow> (exc + pyval) \<times> world" where
  "get_pol_leaderboard net season w =
     (if season = ''current''
      then (let endpoint = ''locations/global/pathoflegend/players''
            in make_request net endpoint None w)
      else (let endpoint = ''locations/global/pathoflegend/'' @ season @ ''/rankings/players''
            in make_request net endpoint None w))"

definition get_tournaments :: "network \<Rightarrow> string \<Rightarrow> world \<Rightarrow> (exc + pyval) \<times> world" where
  "get_tournaments net name w =
     (let endpoint = ''tournaments'';
          params = [(''name'', PStr name)]
      in make_request net endpoint (Some params) w)"

definition get_popular_clans :: "network \<Rightarrow> int option \<Rightarrow> world \<Rightarrow> (exc + pyval) \<times> world" where
  \<comment> \<open>\<open>get_popular_clans(limit=200)\<close>: \<open>None\<close> is the call without an argument\<close>
  "get_popular_clans net limit_arg w =
     (let limit = (case limit_arg of None \<Rightarrow> 200 | Some l \<Rightarrow> l);
          endpoint = ''clans'';
          params = [(''minScore'', PInt 40000), (''limit'', PInt (min limit 200))]
      in make_request net endpoint (Some params) w)"

section \<open>What the theorems speak of\<close>

text \<open>
  The request \<open>_make_request\<close> puts on the wire for an endpoint: the URL it builds,
  the query parameters it is given, the session's headers and the client's timeout.
\<close>

definition issued :: "world \<Rightarrow> string \<Rightarrow> (string \<times> pyval) list option \<Rightarrow> request" where
  "issued w endpoint params =
     \<lparr>req_url = base_url (self w) @ ''/'' @ lstrip endpoint CHR ''/'',
      req_params = params,
      req_headers = headers (session (self w)),
      req_timeout = timeout (self w)\<rparr>"



text \<open>
  Upstreams and a client for the concrete scenarios: an upstream that answers every
  request with one response, one whose GET always raises, and the client of the
  specification's example.
\<close>

definition replies :: "response \<Rightarrow> network" where
  "replies r rq = Inr r"

definition fails_with :: "exc \<Rightarrow> network" where
  "fails_with e rq = Inl e"

definition example_client :: ClashRoyaleService where
  "example_client =
     init \<lparr>headers = Map.empty\<rparr> ''secret'' ''https://api.example.com/v1/'' None"

definition example_world :: world where
  "example_world = \<lparr>self = example_client, sent = []\<rparr>"


definition is_digit :: "char \<Rightarrow> bool" where
  "is_digit c = (c \<in> set ''0123456789'')"


text \<open>
  Well-formed JSON, by the grammar of RFC 8259: a value between optional white
  space, the value being an object, an array, a string, a number or one of \<open>true\<close>,
  \<open>false\<close> and \<open>null\<close>. Each function takes the text at the point where its part
  starts and returns the text after it, or \<open>None\<close> when the part is not there; the
  first argument of the three mutually recursive ones bounds the recursion, and twice
  the length of the text is enough.
\<close>

definition is_hex :: "char \<Rightarrow> bool" where
  "is_hex c = (c \<in> set ''0123456789abcdefABCDEF'')"

definition is_control :: "char \<Rightarrow> bool" where
  "is_control c =
     (c \<in> set [CHR 0x00, CHR 0x01, CHR 0x02, CHR 0x03, CHR 0x04, CHR 0x05, CHR 0x06, CHR 0x07,
                CHR 0x08, CHR 0x09, CHR 0x0A, CHR 0x0B, CHR 0x0C, CHR 0x0D, CHR 0x0E, CHR 0x0F,
                CHR 0x10, CHR 0x11, CHR 0x12, CHR 0x13, CHR 0x14, CHR 0x15, CHR 0x16, CHR 0x17,
                CHR 0x18, CHR 0x19, CHR 0x1A, CHR 0x1B, CHR 0x1C, CHR 0x1D, CHR 0x1E, CHR 0x1F])"

fun json_chars :: "string \<Rightarrow> string option" where
  \<comment> \<open>the characters of a string after its opening quote, up to the closing quote\<close>
  "json_chars [] = None"
| "json_chars (c # cs) =
     (if c = CHR 0x22 then Some cs
      else if c = CHR 0x5C then
        (case cs of
           [] \<Rightarrow> None
         | e # r \<Rightarrow>
             if e \<in> set [CHR 0x22, CHR 0x5C, CHR ''/'', CHR ''b'', CHR ''f'', CHR ''n'',
                          CHR ''r'', CHR ''t'']
             then json_chars r
             else if e = CHR ''u'' \<and> 4 \<le> length r \<and> list_all is_hex (take 4 r)
             then json_chars (drop 4 r)
             else None)
      else if is_control c then None
      else json_chars cs)"

definition json_int :: "string \<Rightarrow> string option" where
  "json_int s =
     (case s of
        [] \<Rightarrow> None
      | d # r \<Rightarrow>
          if d = CHR ''0'' then Some r
          else if d \<in> set ''123456789'' then Some (dropWhile is_digit r)
          else None)"

definition json_digits :: "string \<Rightarrow> string option" where
  "json_digits s = (if takeWhile is_digit s = [] then None else Some (dropWhile is_digit s))"

definition json_frac :: "string \<Rightarrow> string option" where
  "json_frac s =
     (case s of
        [] \<Rightarrow> Some s
      | c # r \<Rightarrow> if c = CHR ''.'' then json_digits r else Some s)"

definition json_exp :: "string \<Rightarrow> string option" where
  "json_exp s =
     (case s of
        [] \<Rightarrow> Some s
      | c # r \<Rightarrow>
          if c = CHR ''e'' \<or> c = CHR ''E''
          then (case r of
                  [] \<Rightarrow> None
                | g # r' \<Rightarrow> if g = CHR ''+'' \<or> g = CHR ''-'' then json_digits r' else json_digits r)
          else Some s)"

definition json_number :: "string \<Rightarrow> string option" where
  "json_number s =
     (case json_int (case s of [] \<Rightarrow> s | c # r \<Rightarrow> if c = CHR ''-'' then r else s) of
        None \<Rightarrow> None
      | Some r1 \<Rightarrow> (case json_frac r1 of None \<Rightarrow> None | Some r2 \<Rightarrow> json_exp r2))"

definition json_literal :: "string \<Rightarrow> string \<Rightarrow> string option" where
  "json_literal lit s = (if take (length lit) s = lit then Some (drop (length lit) s) else None)"

fun json_value :: "nat \<Rightarrow> string \<Rightarrow> string option"
  and json_elements :: "nat \<Rightarrow> string \<Rightarrow> string option"
  and json_members :: "nat \<Rightarrow> string \<Rightarrow> string option" where
  "json_value 0 s = None"
| "json_value (Suc n) s =
     (case json_ws s of
        [] \<Rightarrow> None
      | c # r \<Rightarrow>
          if c = CHR ''{'' then
            (case json_ws r of
               [] \<Rightarrow> None
             | d # r' \<Rightarrow> if d = CHR ''}'' then Some r' else json_members n r)
          else if c = CHR ''['' then
            (case json_ws r of
               [] \<Rightarrow> None
             | d # r' \<Rightarrow> if d = CHR '']'' then Some r' else json_elements n r)
          else if c = CHR 0x22 then json_chars r
          else if c = CHR ''t'' then json_literal ''true'' (c # r)
          else if c = CHR ''f'' then json_literal ''false'' (c # r)
          else if c = CHR ''n'' then json_literal ''null'' (c # r)
          else json_number (c # r))"
| "json_elements 0 s = None"
| "json_elements (Suc n) s =
     (case json_value n s of
        None \<Rightarrow> None
      | Some r \<Rightarrow>
          (case json_ws r of
             [] \<Rightarrow> None
           | c # r' \<Rightarrow>
               if c = CHR '','' then json_elements n r'
               else if c = CHR '']'' then Some r'
               else None))"
| "json_members 0 s = None"
| "json_members (Suc n) s =
     (case json_ws s of
        [] \<Rightarrow> None
      | q # r \<Rightarrow>
          if q \<noteq> CHR 0x22 then None
          else
            (case json_chars r of
               None \<Rightarrow> None
             | Some r1 \<Rightarrow>
                 (case json_ws r1 of
                    [] \<Rightarrow> None
                  | c # r2 \<Rightarrow>
                      if c \<noteq> CHR '':'' then None
                      else
                        (case json_value n r2 of
                           None \<Rightarrow> None
                         | Some r3 \<Rightarrow>
                             (case json_ws r3 of
                                [] \<Rightarrow> None
                              | c' # r4 \<Rightarrow>
                                  if c' = CHR '','' then json_members n r4
                                  else if c' = CHR ''}'' then Some r4
                                  else None)))))"

definition is_json :: "string \<Rightarrow> bool" where
  "is_json s =
     (case json_value (Suc (2 * length s)) s of
        None \<Rightarrow> False
      | Some r \<Rightarrow> json_ws r = [])"


section \<open>Facts about the string operations\<close>

lemma startswith_hash: "startswith s ''#'' = (s \<noteq> [] \<and> hd s = CHR ''#'')"
  by (cases s) (simp_all add: startswith_def)

lemma replace_empty: "replace s c '''' = filter (\<lambda>x. x \<noteq> c) s"
  by (induction s) (simp_all add: replace_def)

lemma upper_char_hash: "upper_char c = CHR ''#'' \<longleftrightarrow> c = CHR ''#''"
  by (simp add: upper_char_def)

lemma replace_absent: "c \<notin> set s \<Longrightarrow> replace s c new = s"
  by (induction s) (auto simp: replace_def)

lemma hash_notin_clean: "CHR ''#'' \<notin> set (upper (replace s CHR ''#'' ''''))"
proof
  assume "CHR ''#'' \<in> set (upper (replace s CHR ''#'' ''''))"
  then obtain x where "x \<in> set s" "x \<noteq> CHR ''#''" "upper_char x = CHR ''#''"
    by (auto simp: upper_def replace_empty)
  then show False by (simp add: upper_char_hash)
qed

lemma encoded_tag_eq:
  "replace (upper (replace s CHR ''#'' '''')) CHR ''#'' ''%23''
     = upper (filter (\<lambda>x. x \<noteq> CHR ''#'') s)"
  using replace_absent [OF hash_notin_clean] by (simp add: replace_empty)

lemma lstrip_unchanged: "s \<noteq> [] \<Longrightarrow> hd s \<noteq> c \<Longrightarrow> lstrip s c = s"
  by (cases s) (simp_all add: lstrip_def)

subsection \<open>\<open>str_int\<close> is injective and writes no colon\<close>














section \<open>Facts about the request primitive\<close>

lemma make_request_sent: "sent (snd (make_request net ep ps w)) = sent w @ [issued w ep ps]"
  by (simp add: make_request_def session_get_def issued_def Let_def split: sum.splits)

lemma make_request_self: "self (snd (make_request net ep ps w)) = self w"
  by (simp add: make_request_def session_get_def Let_def split: sum.splits)

lemma make_request_fst:
  "fst (make_request net ep ps w) =
     (case net (issued w ep ps) of
        Inl e \<Rightarrow> Inl (except_clauses e None)
      | Inr resp \<Rightarrow>
          (case raise_for_status resp of
             Inl e \<Rightarrow> Inl (except_clauses e (Some resp))
           | Inr _ \<Rightarrow>
               (case json resp of
                  Inl e \<Rightarrow> Inl (except_clauses e (Some resp))
                | Inr v \<Rightarrow> Inr v)))"
  by (simp add: make_request_def session_get_def issued_def Let_def split: sum.splits)

subsection \<open>Stripping slashes\<close>

lemma takeWhile_eq_replicate:
  "takeWhile (\<lambda>x. x = c) ys = replicate (length (takeWhile (\<lambda>x. x = c) ys)) c"
  by (induction ys) simp_all

lemma lstrip_decomp: "\<exists>n. s = replicate n c @ lstrip s c"
proof -
  have "s = takeWhile (\<lambda>x. x = c) s @ dropWhile (\<lambda>x. x = c) s" by simp
  then show ?thesis
    unfolding lstrip_def using takeWhile_eq_replicate [of c s] by metis
qed

lemma lstrip_no_leading: "\<not> startswith (lstrip s c) [c]"
proof
  assume "startswith (lstrip s c) [c]"
  then obtain r where eq: "dropWhile (\<lambda>x. x = c) s = c # r"
    by (cases "dropWhile (\<lambda>x. x = c) s") (auto simp: startswith_def lstrip_def)
  then have ne: "dropWhile (\<lambda>x. x = c) s \<noteq> []" by simp
  from hd_dropWhile [OF ne] eq show False by simp
qed

lemma rstrip_decomp: "\<exists>n. s = rstrip s c @ replicate n c"
proof -
  have "rev s = takeWhile (\<lambda>x. x = c) (rev s) @ dropWhile (\<lambda>x. x = c) (rev s)" by simp
  then have "s = rev (dropWhile (\<lambda>x. x = c) (rev s)) @ rev (takeWhile (\<lambda>x. x = c) (rev s))"
    by (metis rev_append rev_rev_ident)
  moreover have "rev (takeWhile (\<lambda>x. x = c) (rev s))
                 = replicate (length (takeWhile (\<lambda>x. x = c) (rev s))) c"
    using takeWhile_eq_replicate [of c "rev s"] by (metis rev_replicate)
  ultimately show ?thesis unfolding rstrip_def by metis
qed

lemma rstrip_no_trailing: "rstrip s c \<noteq> t @ [c]"
proof
  assume "rstrip s c = t @ [c]"
  then have "dropWhile (\<lambda>x. x = c) (rev s) = c # rev t"
    unfolding rstrip_def by (metis rev.simps(2) rev_rev_ident rev_swap)
  then have ne: "dropWhile (\<lambda>x. x = c) (rev s) \<noteq> []" and "hd (dropWhile (\<lambda>x. x = c) (rev s)) = c"
    by simp_all
  with hd_dropWhile [OF ne] show False by simp
qed

section \<open>Facts about the client\<close>

lemma example_client_eq:
  "example_client = \<lparr>api_key = ''secret'', base_url = ''https://api.example.com/v1'', timeout = 30,
     session = \<lparr>headers = [''Authorization'' \<mapsto> ''Bearer secret'', ''Accept'' \<mapsto> ''application/json'']\<rparr>\<rparr>"
  by (simp add: example_client_def init_def rstrip_def)

lemma example_world_simps:
  "base_url (self example_world) = ''https://api.example.com/v1''"
  "sent example_world = []"
  "timeout (self example_world) = 30"
  "api_key (self example_world) = ''secret''"
  "headers (session (self example_world))
     = [''Authorization'' \<mapsto> ''Bearer secret'', ''Accept'' \<mapsto> ''application/json'']"
  by (simp_all add: example_world_def example_client_eq)

lemma issued_url:
  "ep \<noteq> [] \<Longrightarrow> hd ep \<noteq> CHR ''/'' \<Longrightarrow>
   issued w ep ps = \<lparr>req_url = base_url (self w) @ ''/'' @ ep, req_params = ps,
                     req_headers = headers (session (self w)), req_timeout = timeout (self w)\<rparr>"
  by (simp add: issued_def lstrip_unchanged)












lemma player_tag_endpoint:
  "get_player_info net t w =
     make_request net (''players/%23'' @ (if startswith t ''#'' then drop 1 t else t)) None w"
  by (simp add: get_player_info_def)

lemma player_battle_log_endpoint:
  "get_player_battle_log net t w =
     make_request net (''players/%23'' @ (if startswith t ''#'' then drop 1 t else t)
                       @ ''/battlelog'') None w"
  by (simp add: get_player_battle_log_def)

lemma clan_info_endpoint:
  "get_clan_info net t w
     = make_request net (''clans/'' @ upper (filter (\<lambda>x. x \<noteq> CHR ''#'') t)) None w"
  by (simp add: get_clan_info_def encoded_tag_eq)

lemma clan_war_log_endpoint:
  "get_clan_war_log net t w
     = make_request net (''clans/'' @ upper (filter (\<lambda>x. x \<noteq> CHR ''#'') t) @ ''/warlog'') None w"
  by (simp add: get_clan_war_log_def encoded_tag_eq)

lemma clan_current_war_endpoint:
  "get_clan_current_war net t w
     = make_request net (''clans/'' @ upper (filter (\<lambda>x. x \<noteq> CHR ''#'') t) @ ''/currentwar'')
         None w"
  by (simp add: get_clan_current_war_def encoded_tag_eq)

lemma pol_endpoint:
  "get_pol_leaderboard net season w =
     make_request net
       (if season = ''current'' then ''locations/global/pathoflegend/players''
        else ''locations/global/pathoflegend/'' @ season @ ''/rankings/players'') None w"
  by (simp add: get_pol_leaderboard_def)

lemma get_clan_members_snd: "snd (get_clan_members net t w) = snd (get_clan_info net t w)"
  by (simp add: get_clan_members_def split: prod.splits sum.splits pyval.splits)

lemma get_clan_members_dict:
  "fst (get_clan_info net t w) = Inr (PDict d) \<Longrightarrow>
   fst (get_clan_members net t w)
     = Inr (PDict [(''members'', dict_get d ''memberList'' (PList [])),
                   (''memberCount'', dict_get d ''memberCount'' (PInt 0))])"
  by (cases "get_clan_info net t w") (simp add: get_clan_members_def)

lemma get_clan_members_self: "self (snd (get_clan_members net t w)) = self w"
proof -
  have "snd (get_clan_members net t w) = snd (get_clan_info net t w)"
    by (simp add: get_clan_members_def split: prod.splits sum.splits pyval.splits)
  then show ?thesis by (simp add: clan_info_endpoint make_request_self)
qed









lemma is_json_examples:
  "is_json ''[1, -2.5e3, true, false, null, {}, []]''"
  "is_json ''  0 ''"
  "\<not> is_json ''''"
  "\<not> is_json ''[1,]''"
  "\<not> is_json ''01''"
  "\<not> is_json ''Infinity''"
  "\<not> is_json ''-Infinity''"
  "\<not> is_json ''[NaN]''"
  by code_simp+

section \<open>Clan tags\<close>

text \<open>
  Claim C1. For every clan tag, \<open>get_clan_info\<close>, \<open>get_clan_war_log\<close> and
  \<open>get_clan_current_war\<close> are said to request \<open>clans/%23T\<close> (with the suffixes
  \<open>/warlog\<close> and \<open>/currentwar\<close>), \<open>T\<close> being the tag in upper case without \<open>#\<close>.
  The code strips every \<open>#\<close> first and only then replaces \<open>#\<close> by \<open>%23\<close>, so the
  second replacement finds nothing (\<open>clan_info_endpoint\<close>): for the tag \<open>#2q0j8yqv\<close>
  the three requests go to \<open>clans/2Q0J8YQV\<close>, with no \<open>%23\<close>.
\<close>

theorem clan_tag_loses_prefix:
  "map req_url (sent (snd (get_clan_info net ''#2q0j8yqv'' example_world)))
     = [''https://api.example.com/v1/clans/2Q0J8YQV'']
   \<and> map req_url (sent (snd (get_clan_war_log net ''#2q0j8yqv'' example_world)))
     = [''https://api.example.com/v1/clans/2Q0J8YQV/warlog'']
   \<and> map req_url (sent (snd (get_clan_current_war net ''#2q0j8yqv'' example_world)))
     = [''https://api.example.com/v1/clans/2Q0J8YQV/currentwar'']
   \<and> ''https://api.example.com/v1/clans/2Q0J8YQV''
     \<noteq> ''https://api.example.com/v1/clans/%232Q0J8YQV''"
  by (simp add: clan_info_endpoint clan_war_log_endpoint clan_current_war_endpoint
      make_request_sent issued_url example_world_simps upper_def upper_char_def)

section \<open>Player tags\<close>

text \<open>
  Claim C2. For a player tag \<open>t\<close> without a leading \<open>#\<close>, \<open>get_player_info\<close> requests
  the endpoint \<open>players/%23t\<close> and \<open>get_player_battle_log\<close> requests
  \<open>players/%23t/battlelog\<close>; for a tag \<open>#r\<close> the \<open>#\<close> is replaced by \<open>%23\<close>, not
  doubled: the endpoints are \<open>players/%23r\<close> and \<open>players/%23r/battlelog\<close>. Each call
  puts exactly one request on the wire, to the base URL, a slash and that endpoint.
\<close>

theorem player_tag_prefix:
  "(\<not> startswith t ''#'' \<longrightarrow>
      get_player_info net t w = make_request net (''players/%23'' @ t) None w
    \<and> get_player_battle_log net t w = make_request net (''players/%23'' @ t @ ''/battlelog'') None w
    \<and> map req_url (sent (snd (get_player_info net t w)))
        = map req_url (sent w) @ [base_url (self w) @ ''/players/%23'' @ t]
    \<and> map req_url (sent (snd (get_player_battle_log net t w)))
        = map req_url (sent w) @ [base_url (self w) @ ''/players/%23'' @ t @ ''/battlelog''])
   \<and> get_player_info net (CHR ''#'' # r) w = make_request net (''players/%23'' @ r) None w
   \<and> get_player_battle_log net (CHR ''#'' # r) w
        = make_request net (''players/%23'' @ r @ ''/battlelog'') None w
   \<and> map req_url (sent (snd (get_player_info net (CHR ''#'' # r) w)))
        = map req_url (sent w) @ [base_url (self w) @ ''/players/%23'' @ r]
   \<and> map req_url (sent (snd (get_player_battle_log net (CHR ''#'' # r) w)))
        = map req_url (sent w) @ [base_url (self w) @ ''/players/%23'' @ r @ ''/battlelog'']"
  by (simp add: player_tag_endpoint player_battle_log_endpoint make_request_sent issued_url
      startswith_def)

text \<open>The tag \<open>P0LYJC8L\<close>, with and without its \<open>#\<close>, on the example client.\<close>

theorem player_tag_prefix_witness:
  "\<not> startswith ''P0LYJC8L'' ''#''
   \<and> get_player_info (fails_with (Exc ConnectionError ''refused'')) ''P0LYJC8L'' example_world
       = make_request (fails_with (Exc ConnectionError ''refused'')) ''players/%23P0LYJC8L'' None
           example_world
   \<and> map req_url (sent (snd (get_player_info (fails_with (Exc ConnectionError ''refused''))
         ''P0LYJC8L'' example_world)))
       = [''https://api.example.com/v1/players/%23P0LYJC8L'']
   \<and> map req_url (sent (snd (get_player_battle_log (fails_with (Exc ConnectionError ''refused''))
         ''#P0LYJC8L'' example_world)))
       = [''https://api.example.com/v1/players/%23P0LYJC8L/battlelog'']"
proof -
  have h: "\<not> startswith ''P0LYJC8L'' ''#''"
    by (simp add: startswith_def)
  from h player_tag_prefix [of "''P0LYJC8L''" "fails_with (Exc ConnectionError ''refused'')"
      example_world "''P0LYJC8L''"]
  show ?thesis
    by (simp add: example_world_simps make_request_sent issued_url)
qed

section \<open>Classification of failures\<close>




section \<open>Malformed bodies\<close>




section \<open>Clan members\<close>

text \<open>
  Claim C5. \<open>get_clan_members\<close> puts on the wire exactly what \<open>get_clan_info\<close> puts
  there for the same tag, one request and no other; and when that request yields a
  JSON object, it returns the object with the two keys \<open>members\<close> and \<open>memberCount\<close>:
  the payload's \<open>memberList\<close>, or the empty list when the key is absent, and the
  payload's \<open>memberCount\<close>, or 0 when the key is absent.
\<close>

theorem clan_members_from_clan_info:
  "sent (snd (get_clan_members net t w)) = sent (snd (get_clan_info net t w))
   \<and> length (sent (snd (get_clan_members net t w))) = Suc (length (sent w))
   \<and> (fst (get_clan_info net t w) = Inr (PDict d) \<longrightarrow>
        fst (get_clan_members net t w)
          = Inr (PDict [(''members'', case map_of d ''memberList'' of
                                        None \<Rightarrow> PList [] | Some m \<Rightarrow> m),
                        (''memberCount'', case map_of d ''memberCount'' of
                                            None \<Rightarrow> PInt 0 | Some c \<Rightarrow> c)]))"
  by (simp add: get_clan_members_snd get_clan_members_dict dict_get_def clan_info_endpoint
      make_request_sent)

text \<open>A payload with neither key, and a payload with both.\<close>

theorem clan_members_from_clan_info_witness:
  "fst (get_clan_info
         (replies \<lparr>status_code = 200, resp_text = ''{}'',
                   json = Inr (PDict [(''tag'', PStr ''#2Q0J8YQV'')])\<rparr>)
         ''2Q0J8YQV'' example_world)
     = Inr (PDict [(''tag'', PStr ''#2Q0J8YQV'')])
   \<and> fst (get_clan_members
         (replies \<lparr>status_code = 200, resp_text = ''{}'',
                   json = Inr (PDict [(''tag'', PStr ''#2Q0J8YQV'')])\<rparr>)
         ''2Q0J8YQV'' example_world)
     = Inr (PDict [(''members'', PList []), (''memberCount'', PInt 0)])
   \<and> fst (get_clan_members
         (replies \<lparr>status_code = 200, resp_text = ''{}'',
                   json = Inr (PDict [(''memberList'', PList [PDict [(''name'', PStr ''a'')]]),
                                      (''memberCount'', PInt 1)])\<rparr>)
         ''2Q0J8YQV'' example_world)
     = Inr (PDict [(''members'', PList [PDict [(''name'', PStr ''a'')]]), (''memberCount'', PInt 1)])"
proof -
  let ?d = "[(''tag'', PStr ''#2Q0J8YQV'')]"
  let ?r = "\<lparr>status_code = 200, resp_text = ''{}'', json = Inr (PDict ?d)\<rparr>"
  let ?d' = "[(''memberList'', PList [PDict [(''name'', PStr ''a'')]]), (''memberCount'', PInt 1)]"
  let ?r' = "\<lparr>status_code = 200, resp_text = ''{}'', json = Inr (PDict ?d')\<rparr>"
  have h: "fst (get_clan_info (replies ?r) ''2Q0J8YQV'' example_world) = Inr (PDict ?d)"
    by (simp add: clan_info_endpoint make_request_fst replies_def raise_for_status_def)
  have h': "fst (get_clan_info (replies ?r') ''2Q0J8YQV'' example_world) = Inr (PDict ?d')"
    by (simp add: clan_info_endpoint make_request_fst replies_def raise_for_status_def)
  have a: "fst (get_clan_members (replies ?r) ''2Q0J8YQV'' example_world)
             = Inr (PDict [(''members'', PList []), (''memberCount'', PInt 0)])"
    using h clan_members_from_clan_info [of "replies ?r" "''2Q0J8YQV''" example_world ?d]
    by simp
  have b: "fst (get_clan_members (replies ?r') ''2Q0J8YQV'' example_world)
             = Inr (PDict [(''members'', PList [PDict [(''name'', PStr ''a'')]]),
                           (''memberCount'', PInt 1)])"
    using h' clan_members_from_clan_info [of "replies ?r'" "''2Q0J8YQV''" example_world ?d']
    by simp
  from h a b show ?thesis by simp
qed

section \<open>Popular clans\<close>

text \<open>
  Claim C6. For every integer \<open>limit\<close>, \<open>get_popular_clans\<close> requests the endpoint
  \<open>clans\<close> with the query parameters \<open>minScore = 40000\<close> and
  \<open>limit = min(limit, 200)\<close>: 500 is sent as 200, 50 as 50, and the call without an
  argument is the call with 200.
\<close>

theorem popular_clans_limit:
  "sent (snd (get_popular_clans net (Some l) w))
     = sent w @ [\<lparr>req_url = base_url (self w) @ ''/clans'',
                  req_params = Some [(''minScore'', PInt 40000), (''limit'', PInt (min l 200))],
                  req_headers = headers (session (self w)),
                  req_timeout = timeout (self w)\<rparr>]
   \<and> get_popular_clans net (Some l) w
       = make_request net ''clans''
           (Some [(''minScore'', PInt 40000), (''limit'', PInt (min l 200))]) w
   \<and> map req_params (sent (snd (get_popular_clans net (Some 500) example_world)))
       = [Some [(''minScore'', PInt 40000), (''limit'', PInt 200)]]
   \<and> map req_params (sent (snd (get_popular_clans net (Some 50) example_world)))
       = [Some [(''minScore'', PInt 40000), (''limit'', PInt 50)]]
   \<and> get_popular_clans net None w = get_popular_clans net (Some 200) w"
  by (simp add: get_popular_clans_def make_request_sent issued_url example_world_simps)

section \<open>Base URL and credential\<close>

text \<open>
  Claim C7. The constructor stores the base URL without its trailing slashes: what
  it stores ends in no slash, and the argument is the stored URL followed by slashes
  only. For every endpoint, \<open>_make_request\<close> sends its request to the stored base
  URL, a slash, and the endpoint without its leading slashes, with the header
  \<open>Authorization: Bearer\<close> and the credential. The client built with the base URL
  \<open>https://api.example.com/v1/\<close> sends \<open>get_cards\<close> to
  \<open>https://api.example.com/v1/cards\<close> with that header.
\<close>

theorem url_and_authorization:
  "base_url (init fresh key url tmo) = rstrip url CHR ''/''
   \<and> (\<exists>n. url = base_url (init fresh key url tmo) @ replicate n CHR ''/'')
   \<and> (\<forall>t. base_url (init fresh key url tmo) \<noteq> t @ ''/'')
   \<and> sent (snd (make_request net ep ps \<lparr>self = init fresh key url tmo, sent = s0\<rparr>))
       = s0 @ [\<lparr>req_url = rstrip url CHR ''/'' @ ''/'' @ lstrip ep CHR ''/'',
                req_params = ps,
                req_headers = (headers fresh)(''Authorization'' \<mapsto> ''Bearer '' @ key,
                                               ''Accept'' \<mapsto> ''application/json''),
                req_timeout = (case tmo of None \<Rightarrow> 30 | Some t \<Rightarrow> t)\<rparr>]
   \<and> (\<exists>n. ep = replicate n CHR ''/'' @ lstrip ep CHR ''/'')
   \<and> \<not> startswith (lstrip ep CHR ''/'') ''/''
   \<and> req_headers (last (sent (snd (make_request net ep ps
         \<lparr>self = init fresh key url tmo, sent = s0\<rparr>)))) ''Authorization''
       = Some (''Bearer '' @ key)
   \<and> map req_url (sent (snd (get_cards net example_world)))
       = [''https://api.example.com/v1/cards'']
   \<and> req_headers (last (sent (snd (get_cards net example_world)))) ''Authorization''
       = Some ''Bearer secret''"
proof -
  have b: "base_url (init fresh key url tmo) = rstrip url CHR ''/''"
    by (simp add: init_def)
  have sent: "sent (snd (make_request net ep ps \<lparr>self = init fresh key url tmo, sent = s0\<rparr>))
       = s0 @ [\<lparr>req_url = rstrip url CHR ''/'' @ ''/'' @ lstrip ep CHR ''/'',
                req_params = ps,
                req_headers = (headers fresh)(''Authorization'' \<mapsto> ''Bearer '' @ key,
                                               ''Accept'' \<mapsto> ''application/json''),
                req_timeout = (case tmo of None \<Rightarrow> 30 | Some t \<Rightarrow> t)\<rparr>]"
    by (simp add: make_request_sent issued_def init_def)
  have hdr: "req_headers (last (sent (snd (make_request net ep ps
         \<lparr>self = init fresh key url tmo, sent = s0\<rparr>)))) ''Authorization''
       = Some (''Bearer '' @ key)"
    by (simp add: sent)
  have ex1: "map req_url (sent (snd (get_cards net example_world)))
       = [''https://api.example.com/v1/cards'']"
    by (simp add: get_cards_def make_request_sent issued_url example_world_simps)
  have ex2: "req_headers (last (sent (snd (get_cards net example_world)))) ''Authorization''
       = Some ''Bearer secret''"
    by (simp add: get_cards_def make_request_sent issued_url example_world_simps)
  from b sent hdr ex1 ex2 rstrip_decomp [of url "CHR ''/''"] rstrip_no_trailing [of url "CHR ''/''"]
    lstrip_decomp [of ep "CHR ''/''"] lstrip_no_leading [of ep "CHR ''/''"]
  show ?thesis by simp
qed

section \<open>Path of Legends leaderboard\<close>

text \<open>
  Claim C8. \<open>get_pol_leaderboard\<close> requests the endpoint
  \<open>locations/global/pathoflegend/players\<close> exactly when the season is \<open>current\<close>, and
  \<open>locations/global/pathoflegend/{season}/rankings/players\<close> otherwise; the seasons
  \<open>current\<close> and \<open>2025-12\<close> are requested at different URLs.
\<close>

theorem pol_leaderboard_endpoint:
  "sent (snd (get_pol_leaderboard net season w))
     = sent w @ [issued w (if season = ''current'' then ''locations/global/pathoflegend/players''
                           else ''locations/global/pathoflegend/'' @ season @ ''/rankings/players'')
                   None]
   \<and> (req_url (last (sent (snd (get_pol_leaderboard net season w))))
        = base_url (self w) @ ''/locations/global/pathoflegend/players''
      \<longleftrightarrow> season = ''current'')
   \<and> (season \<noteq> ''current'' \<longrightarrow>
        req_url (last (sent (snd (get_pol_leaderboard net season w))))
        = base_url (self w) @ ''/locations/global/pathoflegend/'' @ season @ ''/rankings/players'')
   \<and> req_url (last (sent (snd (get_pol_leaderboard net ''current'' w))))
       \<noteq> req_url (last (sent (snd (get_pol_leaderboard net ''2025-12'' w))))"
proof -
  have len: "season @ ''/rankings/players'' \<noteq> ''players''"
  proof
    assume "season @ ''/rankings/players'' = ''players''"
    then have "length (season @ ''/rankings/players'') = length ''players''" by simp
    then show False by simp
  qed
  show ?thesis
    using len by (simp add: pol_endpoint make_request_sent issued_url)
qed

text \<open>The season \<open>2025-12\<close> on the example client.\<close>

theorem pol_leaderboard_endpoint_witness:
  "''2025-12'' \<noteq> ''current''
   \<and> req_url (last (sent (snd (get_pol_leaderboard (fails_with (Exc Timeout ''timed out''))
        ''2025-12'' example_world))))
     = ''https://api.example.com/v1/locations/global/pathoflegend/2025-12/rankings/players''"
proof -
  have h: "''2025-12'' \<noteq> ''current''" by simp
  from h pol_leaderboard_endpoint [of "fails_with (Exc Timeout ''timed out'')" "''2025-12''"
      example_world]
  show ?thesis by (simp add: example_world_simps issued_url)
qed

section \<open>The client is not modified\<close>

text \<open>
  Claim C9. The request primitive and each of the ten derived operations leave the
  client object as it was, so its credential, base URL and timeout are unchanged,
  for every input and every answer of the upstream, success or failure.
\<close>

theorem configuration_unchanged:
  "self (snd (make_request net ep ps w)) = self w
   \<and> self (snd (get_player_info net t w)) = self w
   \<and> self (snd (get_player_battle_log net t w)) = self w
   \<and> self (snd (get_clan_info net t w)) = self w
   \<and> self (snd (get_clan_members net t w)) = self w
   \<and> self (snd (get_clan_war_log net t w)) = self w
   \<and> self (snd (get_clan_current_war net t w)) = self w
   \<and> self (snd (get_cards net w)) = self w
   \<and> self (snd (get_pol_leaderboard net season w)) = self w
   \<and> self (snd (get_tournaments net name w)) = self w
   \<and> self (snd (get_popular_clans net lim w)) = self w"
  by (simp add: make_request_self player_tag_endpoint player_battle_log_endpoint
      clan_info_endpoint clan_war_log_endpoint clan_current_war_endpoint get_clan_members_self
      get_cards_def pol_endpoint get_tournaments_def get_popular_clans_def)

section \<open>Player tags that are already encoded\<close>

text \<open>
  Claim C10. A player tag that already begins with \<open>%23\<close> gets a second \<open>%23\<close>:
  \<open>get_player_info\<close> requests \<open>players/%23%23rest\<close> and \<open>get_player_battle_log\<close>
  requests \<open>players/%23%23rest/battlelog\<close>, which is not the URL requested for the
  same tag written with \<open>#\<close>.
\<close>

theorem encoded_player_tag_prefixed_twice:
  "get_player_info net (''%23'' @ rest) w = make_request net (''players/%23%23'' @ rest) None w
   \<and> get_player_battle_log net (''%23'' @ rest) w
       = make_request net (''players/%23%23'' @ rest @ ''/battlelog'') None w
   \<and> map req_url (sent (snd (get_player_info net (''%23'' @ rest) w)))
       = map req_url (sent w) @ [base_url (self w) @ ''/players/%23%23'' @ rest]
   \<and> map req_url (sent (snd (get_player_battle_log net (''%23'' @ rest) w)))
       = map req_url (sent w) @ [base_url (self w) @ ''/players/%23%23'' @ rest @ ''/battlelog'']
   \<and> map req_url (sent (snd (get_player_info net (''%23'' @ rest) w)))
       \<noteq> map req_url (sent (snd (get_player_info net (''#'' @ rest) w)))"
  by (simp add: player_tag_endpoint player_battle_log_endpoint make_request_sent issued_url
      startswith_def)

end
